theory Spec2Isabelle
  imports Main
begin

section \<open>Strings\<close>

text \<open>
  A Python \<open>str\<close> is modelled as the list of its code points, restricted to the code
  points below 256 (Latin-1), one \<open>char\<close> each. On that range \<open>str.strip()\<close>,
  \<open>str.lower()\<close> and SQLite's built-in \<open>lower()\<close> are as defined here:
  \<^item> \<open>str.strip()\<close> removes leading and trailing characters for which \<open>str.isspace()\<close>
    holds: code points 9-13, 28-32, 133 and 160;
  \<^item> \<open>str.lower()\<close> maps \<open>A-Z\<close> and the upper-case letters 192-222 (except the
    multiplication sign 215) to the code point 32 above, which is the same character with
    bit 5 set;
  \<^item> SQLite's \<open>lower()\<close> converts the ASCII letters \<open>A-Z\<close> only.
\<close>

definition py_isspace :: "char \<Rightarrow> bool" where
  "py_isspace c = (let n = (of_char c :: nat) in
      (9 \<le> n \<and> n \<le> 13) \<or> (28 \<le> n \<and> n \<le> 32) \<or> n = 133 \<or> n = 160)"

definition strip :: "string \<Rightarrow> string" where
  "strip s = rev (dropWhile py_isspace (rev (dropWhile py_isspace s)))"

fun plus32 :: "char \<Rightarrow> char" where
  "plus32 (Char b0 b1 b2 b3 b4 b5 b6 b7) = Char b0 b1 b2 b3 b4 True b6 b7"

definition ascii_upper :: "char \<Rightarrow> bool" where
  "ascii_upper c = (let n = (of_char c :: nat) in 65 \<le> n \<and> n \<le> 90)"

definition latin1_upper :: "char \<Rightarrow> bool" where
  "latin1_upper c = (let n = (of_char c :: nat) in 192 \<le> n \<and> n \<le> 222 \<and> n \<noteq> 215)"

definition lower :: "string \<Rightarrow> string" where
  "lower s = map (\<lambda>c. if ascii_upper c \<or> latin1_upper c then plus32 c else c) s"

definition sql_lower :: "string \<Rightarrow> string" where
  "sql_lower s = map (\<lambda>c. if ascii_upper c then plus32 c else c) s"

definition is_ascii :: "string \<Rightarrow> bool" where
  "is_ascii s = list_all (\<lambda>c. (of_char c :: nat) < 128) s"

text \<open>\<open>x or d\<close> for an optional string \<open>x\<close>: \<open>None\<close> and the empty string are falsy.\<close>

definition py_or :: "string option \<Rightarrow> string \<Rightarrow> string" where
  "py_or x d = (case x of None \<Rightarrow> d | Some s \<Rightarrow> if s = [] then d else s)"

text \<open>
  An entry of the legacy file: a JSON object whose values are strings or \<open>null\<close>. A key is
  absent (\<open>None\<close>), bound to \<open>null\<close> (\<open>Some None\<close>) or bound to a string. \<open>dict.get(k)\<close>
  and \<open>dict.get(k, d)\<close>:
\<close>

type_synonym json_object = "string \<rightharpoonup> string option"

definition get :: "json_object \<Rightarrow> string \<Rightarrow> string option" where
  "get obj k = (case obj k of None \<Rightarrow> None | Some v \<Rightarrow> v)"

definition get_default :: "json_object \<Rightarrow> string \<Rightarrow> string \<Rightarrow> string option" where
  "get_default obj k d = (case obj k of None \<Rightarrow> Some d | Some v \<Rightarrow> v)"

section \<open>Credential store\<close>

text \<open>
  A row of the \<open>users\<close> table as the queries select it (\<open>username, password, full_name,
  email, role\<close>); the table is the list of its rows in rowid order. \<open>fetchone()\<close> yields the
  first row of a full scan.
\<close>

record user =
  username :: string
  password :: string
  full_name :: string
  email :: "string option"
  role :: string

type_synonym users = "user list"

datatype db_error = IntegrityError

text \<open>
  \<open>INSERT INTO users (username, password, full_name, email, role) VALUES (?, ?, ?, ?, ?)\<close>
  under the table's constraints: \<open>password NOT NULL\<close>, \<open>username UNIQUE\<close>, and
  \<open>email UNIQUE\<close>, which compares exactly and admits any number of \<open>NULL\<close>s.
\<close>

definition username_taken :: "string \<Rightarrow> users \<Rightarrow> bool" where
  "username_taken un db = list_ex (\<lambda>r. username r = un) db"

definition email_taken :: "string option \<Rightarrow> users \<Rightarrow> bool" where
  "email_taken em db = (case em of None \<Rightarrow> False | Some e \<Rightarrow> list_ex (\<lambda>r. email r = Some e) db)"

definition sql_insert ::
  "string \<Rightarrow> string option \<Rightarrow> string \<Rightarrow> string option \<Rightarrow> string \<Rightarrow> users \<Rightarrow> db_error + users" where
  "sql_insert un pw fn em rl db =
     (case pw of
        None \<Rightarrow> Inl IntegrityError
      | Some p \<Rightarrow>
          if username_taken un db \<or> email_taken em db then Inl IntegrityError
          else Inr (db @ [\<lparr>username = un, password = p, full_name = fn, email = em, role = rl\<rparr>]))"

definition email_matches :: "string \<Rightarrow> user \<Rightarrow> bool" where
  "email_matches e r = (case email r of None \<Rightarrow> False | Some e' \<Rightarrow> sql_lower e' = lower e)"

definition get_user_by_username :: "string \<Rightarrow> users \<Rightarrow> user option" where
  "get_user_by_username un db = find (\<lambda>r. username r = un) db"

definition get_user_by_email :: "string \<Rightarrow> users \<Rightarrow> user option" where
  "get_user_by_email e db = find (email_matches e) db"

definition create_user ::
  "string \<Rightarrow> string \<Rightarrow> string \<Rightarrow> string option \<Rightarrow> string \<Rightarrow> users \<Rightarrow> db_error + users" where
  "create_user un password_hash fn em rl db = sql_insert un (Some password_hash) fn em rl db"

definition lookup_user :: "string \<Rightarrow> users \<Rightarrow> (string \<times> user) option" where
  "lookup_user login_identifier db =
     (if login_identifier = [] then None
      else case find (\<lambda>r. username r = login_identifier) db of
             Some row \<Rightarrow> Some (username row, row)
           | None \<Rightarrow>
               (case find (email_matches login_identifier) db of
                  Some row \<Rightarrow> Some (username row, row)
                | None \<Rightarrow> None))"

subsection \<open>Legacy import\<close>

text \<open>
  \<open>load_users_from_json\<close> yields, for each entry of the legacy file whose value is an
  object, the four fields with their defaults; a missing or unreadable file is the empty
  list. The entries are kept as the list of the dictionary's items, in the order Python
  iterates them; a field is a string, \<open>null\<close> or absent.
\<close>

record legacy =
  l_password :: "string option"
  l_full_name :: "string option"
  l_email :: "string option"
  l_role :: "string option"

definition load_users_from_json :: "(string \<times> json_object) list \<Rightarrow> (string \<times> legacy) list" where
  "load_users_from_json data =
     map (\<lambda>(un, details).
            (un, \<lparr>l_password = get_default details ''password'' [],
                  l_full_name = get_default details ''full_name'' un,
                  l_email = get details ''email'',
                  l_role = get_default details ''role'' ''Viewer''\<rparr>)) data"

fun insert_all :: "(string \<times> legacy) list \<Rightarrow> users \<Rightarrow> users" where
  "insert_all [] db = db"
| "insert_all ((un, details) # rest) db =
     (case sql_insert un (l_password details) (py_or (l_full_name details) un)
             (l_email details) (py_or (l_role details) ''Viewer'') db of
        Inl IntegrityError \<Rightarrow> insert_all rest db
      | Inr db' \<Rightarrow> insert_all rest db')"

definition migrate_users_from_json :: "(string \<times> json_object) list \<Rightarrow> users \<Rightarrow> users" where
  "migrate_users_from_json data db =
     (let json_users = load_users_from_json data in
      if json_users = [] then db
      else if length db \<noteq> 0 then db
      else insert_all json_users db)"

section \<open>Auth session service\<close>

text \<open>
  The Flask session holds at most the key \<open>user\<close>. A response is its JSON body and its
  status code; a request that ends in an exception no handler catches is answered by the
  framework with status 500.

  The handlers read the request with \<open>request.get_json(force=True, silent=True) or {}\<close>.
  A body that does not parse, and a body that parses to a falsy value, give the empty
  object; a body that parses to a truthy value other than an object (\<open>[1]\<close>, \<open>5\<close>) is
  \<open>Non_object\<close>, and the first \<open>payload.get\<close> on it raises \<open>AttributeError\<close>. The value of a
  key is \<open>null\<close>, a string, or a value of another JSON type, of which the handlers only
  see whether Python counts it as false (\<open>false\<close>, \<open>0\<close>, \<open>[]\<close>, \<open>{}\<close>) or as true.
\<close>

datatype json_value = JNull | JString string | JFalsy | JTruthy

type_synonym json_payload = "string \<rightharpoonup> json_value"

datatype json_body = Object json_payload | Non_object

text \<open>
  A Python value as the handlers hold it after \<open>payload.get(k) or d\<close>: a string, or a
  truthy value that is not a string. \<open>.strip()\<close> on the latter raises \<open>AttributeError\<close>.
\<close>

datatype pyval = Str string | Other

datatype py_exception = AttributeError | ValueError

definition get_or :: "json_payload \<Rightarrow> string \<Rightarrow> string \<Rightarrow> pyval" where
  "get_or payload k d =
     (case payload k of
        None \<Rightarrow> Str d
      | Some JNull \<Rightarrow> Str d
      | Some JFalsy \<Rightarrow> Str d
      | Some (JString s) \<Rightarrow> if s = [] then Str d else Str s
      | Some JTruthy \<Rightarrow> Other)"

definition py_strip :: "pyval \<Rightarrow> py_exception + string" where
  "py_strip v = (case v of Str s \<Rightarrow> Inr (strip s) | Other \<Rightarrow> Inl AttributeError)"

text \<open>
  The two functions of \<open>werkzeug.security\<close> are parameters of the handlers that call them.
  \<open>generate_password_hash salt password\<close> is the result of
  \<open>generate_password_hash(password)\<close> on a string when the call draws the salt \<open>salt\<close>; on a
  value that is not a string the call raises \<open>AttributeError\<close> (it encodes the password).
  \<open>check_password_hash pwhash password\<close> is \<open>check_password_hash(pwhash, password)\<close>, which
  returns a truth value or raises: \<open>Inl\<close> is the exception.
\<close>

type_synonym session = "string option"

datatype session_payload =
  Unauthenticated
| Authenticated string string string "string option"

datatype body =
  Error_body string
| Signup_body string string string
| Session_body session_payload
| Success_body
| Unhandled py_exception

type_synonym response = "body \<times> nat"

definition get_session_payload :: "session \<Rightarrow> users \<Rightarrow> session_payload \<times> session" where
  "get_session_payload sess db =
     (case sess of
        None \<Rightarrow> (Unauthenticated, sess)
      | Some un \<Rightarrow>
          if un = [] then (Unauthenticated, sess)
          else (case get_user_by_username un db of
                  None \<Rightarrow> (Unauthenticated, None)
                | Some u \<Rightarrow>
                    (Authenticated un (py_or (Some (full_name u)) un) (role u) (email u), sess)))"

definition signup ::
  "(string \<Rightarrow> string \<Rightarrow> string) \<Rightarrow> string \<Rightarrow> json_body \<Rightarrow> users \<Rightarrow> response \<times> users" where
  "signup generate_password_hash salt request_json db =
     (case request_json of
        Non_object \<Rightarrow> ((Unhandled AttributeError, 500), db)
      | Object payload \<Rightarrow>
     (case py_strip (get_or payload ''username'' []) of
        Inl exn \<Rightarrow> ((Unhandled exn, 500), db)
      | Inr un \<Rightarrow>
     (case py_strip (get_or payload ''full_name'' []) of
        Inl exn \<Rightarrow> ((Unhandled exn, 500), db)
      | Inr fn \<Rightarrow>
     (case py_strip (get_or payload ''email'' []) of
        Inl exn \<Rightarrow> ((Unhandled exn, 500), db)
      | Inr e \<Rightarrow>
     (case py_strip (get_or payload ''role'' ''Viewer'') of
        Inl exn \<Rightarrow> ((Unhandled exn, 500), db)
      | Inr r \<Rightarrow>
        (let pw = get_or payload ''password'' [];
             em = (if e = [] then None else Some e);
             rl = py_or (Some r) ''Viewer''
         in
         if un = [] \<or> pw = Str [] \<or> fn = [] then
           ((Error_body ''Username, full name and password are required.'', 400), db)
         else if get_user_by_username un db \<noteq> None then
           ((Error_body ''Username already exists.'', 409), db)
         else if (case em of None \<Rightarrow> False | Some e \<Rightarrow> get_user_by_email e db \<noteq> None) then
           ((Error_body ''Email already in use.'', 409), db)
         else
           (case pw of
              Other \<Rightarrow> ((Unhandled AttributeError, 500), db)
            | Str p \<Rightarrow>
                (case create_user un (generate_password_hash salt p) fn em rl db of
                   Inl IntegrityError \<Rightarrow>
                     ((Error_body ''Unable to create account. Please try again.'', 500), db)
                 | Inr db' \<Rightarrow>
                     ((Signup_body ''Account created successfully. Please sign in.'' un fn, 201),
                      db')))))))))"

definition login ::
  "(string \<Rightarrow> pyval \<Rightarrow> py_exception + bool) \<Rightarrow> json_body \<Rightarrow> session \<Rightarrow> users \<Rightarrow>
     response \<times> session" where
  "login check_password_hash request_json sess db =
     (case request_json of
        Non_object \<Rightarrow> ((Unhandled AttributeError, 500), sess)
      | Object payload \<Rightarrow>
     (case py_strip (get_or payload ''username'' []) of
        Inl exn \<Rightarrow> ((Unhandled exn, 500), sess)
      | Inr login_identifier \<Rightarrow>
        (let pw = get_or payload ''password'' [] in
         if login_identifier = [] \<or> pw = Str [] then
           ((Error_body ''Both username and password are required.'', 400), sess)
         else
           (case lookup_user login_identifier db of
              None \<Rightarrow> ((Error_body ''Invalid username or password.'', 401), sess)
            | Some (un, u) \<Rightarrow>
                (case check_password_hash (password u) pw of
                   Inl exn \<Rightarrow> ((Unhandled exn, 500), sess)
                 | Inr ok \<Rightarrow>
                     if \<not> ok then
                       ((Error_body ''Invalid username or password.'', 401), sess)
                     else
                       (case get_session_payload (Some un) db of
                          (p, sess') \<Rightarrow> ((Session_body p, 200), sess')))))))"

definition logout :: "session \<Rightarrow> response \<times> session" where
  "logout sess = ((Success_body, 200), None)"

definition session_info :: "session \<Rightarrow> users \<Rightarrow> response \<times> session" where
  "session_info sess db = (case get_session_payload sess db of (p, sess') \<Rightarrow> ((Session_body p, 200), sess'))"

section \<open>Document registry\<close>

text \<open>
  A row of the \<open>document\<close> table (the upload date plays no part below) and the content of
  the upload folder, keyed by the name below the folder. An entry of the folder is a
  regular file with its bytes, or a directory. \<open>werkzeug.utils.secure_filename\<close> is a
  parameter of the upload handler.
\<close>

record document =
  doc_id :: nat
  filename :: string
  department :: string
  category :: string

datatype node = File string | Directory

record doc_state =
  documents :: "document list"
  uploads :: "string \<rightharpoonup> node"

datatype os_error = FileNotFoundError | IsADirectoryError

datatype http_method = GET | POST

text \<open>
  A response of the document app: a redirect to an endpoint with a flashed message, or an
  error page of the framework (404 from \<open>get_or_404\<close>, 500 from an exception no handler
  catches). A GET of the upload form ends in the latter: \<open>UPLOAD_TEMPLATE\<close> is the layout
  followed by a second \<open>block content\<close>, and Jinja refuses a template that defines a block
  twice, so \<open>render_template_string\<close> raises.
\<close>

datatype doc_response =
  Redirect string string
| Not_found
| Internal_error

definition ALLOWED_EXTENSIONS :: "string set" where
  "ALLOWED_EXTENSIONS = {''pdf'', ''doc'', ''docx'', ''jpg'', ''jpeg'', ''png''}"

text \<open>\<open>s.rsplit('.', 1)[1]\<close> for an \<open>s\<close> that contains a dot: what follows the last dot.\<close>

definition rsplit_dot_last :: "string \<Rightarrow> string" where
  "rsplit_dot_last s = rev (takeWhile (\<lambda>c. c \<noteq> CHR ''.'') (rev s))"

definition allowed_file :: "string \<Rightarrow> bool" where
  "allowed_file fname =
     (CHR ''.'' \<in> set fname \<and> lower (rsplit_dot_last fname) \<in> ALLOWED_EXTENSIONS)"

text \<open>\<open>os.remove\<close> and \<open>FileStorage.save\<close> on a name below the upload folder.\<close>

definition os_remove :: "(string \<rightharpoonup> node) \<Rightarrow> string \<Rightarrow> os_error + (string \<rightharpoonup> node)" where
  "os_remove fs name =
     (case fs name of
        None \<Rightarrow> Inl FileNotFoundError
      | Some Directory \<Rightarrow> Inl IsADirectoryError
      | Some (File _) \<Rightarrow> Inr (fs(name := None)))"

definition file_save ::
  "(string \<rightharpoonup> node) \<Rightarrow> string \<Rightarrow> string \<Rightarrow> os_error + (string \<rightharpoonup> node)" where
  "file_save fs name content =
     (if name = [] \<or> fs name = Some Directory then Inl IsADirectoryError
      else Inr (fs(name \<mapsto> File content)))"

text \<open>
  Adding a \<open>Document\<close> and committing: the id is the next rowid, and the columns
  \<open>department\<close> and \<open>category\<close> are \<open>NOT NULL\<close>.
\<close>

definition next_id :: "document list \<Rightarrow> nat" where
  "next_id docs = fold max (map doc_id docs) 0 + 1"

definition add_document ::
  "string \<Rightarrow> string option \<Rightarrow> string option \<Rightarrow> document list \<Rightarrow> db_error + document list" where
  "add_document name dept cat docs =
     (case dept of
        None \<Rightarrow> Inl IntegrityError
      | Some d \<Rightarrow>
          (case cat of
             None \<Rightarrow> Inl IntegrityError
           | Some c \<Rightarrow>
               Inr (docs @ [\<lparr>doc_id = next_id docs, filename = name,
                              department = d, category = c\<rparr>])))"

definition upload ::
  "(string \<Rightarrow> string) \<Rightarrow> http_method \<Rightarrow> (string \<times> string) option \<Rightarrow> string option \<Rightarrow>
     string option \<Rightarrow> doc_state \<Rightarrow> doc_response \<times> doc_state" where
  "upload secure_filename method file dept cat st =
     (if method = POST then
        (case file of
           None \<Rightarrow> (Redirect ''No file selected'' ''upload'', st)
         | Some (fname, content) \<Rightarrow>
             if fname = [] then (Redirect ''No file selected'' ''upload'', st)
             else if allowed_file fname then
               (case file_save (uploads st) (secure_filename fname) content of
                  Inl e \<Rightarrow> (Internal_error, st)
                | Inr fs' \<Rightarrow>
                    (case add_document (secure_filename fname) dept cat (documents st) of
                       Inl e \<Rightarrow> (Internal_error, st\<lparr>uploads := fs'\<rparr>)
                     | Inr docs' \<Rightarrow>
                         (Redirect ''File uploaded successfully!'' ''index'',
                          \<lparr>documents = docs', uploads = fs'\<rparr>)))
             else (Redirect ''Invalid file type. Allowed: pdf, doc, docx, jpg, png'' ''upload'', st))
      else (Internal_error, st))"

definition delete :: "nat \<Rightarrow> doc_state \<Rightarrow> doc_response \<times> doc_state" where
  "delete i st =
     (case find (\<lambda>d. doc_id d = i) (documents st) of
        None \<Rightarrow> (Not_found, st)
      | Some doc \<Rightarrow>
          (case os_remove (uploads st) (filename doc) of
             Inl FileNotFoundError \<Rightarrow>
               (Redirect ''File deleted successfully!'' ''index'',
                st\<lparr>documents := filter (\<lambda>d. doc_id d \<noteq> i) (documents st)\<rparr>)
           | Inl IsADirectoryError \<Rightarrow> (Internal_error, st)
           | Inr fs' \<Rightarrow>
               (Redirect ''File deleted successfully!'' ''index'',
                \<lparr>documents = filter (\<lambda>d. doc_id d \<noteq> i) (documents st), uploads = fs'\<rparr>)))"

section \<open>Auxiliary notions\<close>

text \<open>The row that the legacy import builds from an entry \<open>(un, d)\<close> of the loaded file.\<close>

definition imported :: "string \<Rightarrow> legacy \<Rightarrow> user \<Rightarrow> bool" where
  "imported un d r =
     (username r = un \<and> l_password d = Some (password r) \<and>
      full_name r = py_or (l_full_name d) un \<and> email r = l_email d \<and>
      role r = py_or (l_role d) ''Viewer'')"


text \<open>
  Stand-ins for the two functions of \<open>werkzeug.security\<close>, to run the handlers on concrete
  requests. A statement about every hash function does not depend on them. \<open>demo_check\<close>
  follows the steps of werkzeug's function: a stored value that does not split at \<open>$\<close> into
  method, salt and hash verifies nothing (\<open>False\<close>); otherwise the password is encoded,
  which raises \<open>AttributeError\<close> unless it is a string; then an unknown method raises
  \<open>ValueError\<close>; then the hash of the password is compared with the stored one.
\<close>

definition demo_hash :: "string \<Rightarrow> string \<Rightarrow> string" where
  "demo_hash salt pw = ''demo$'' @ salt @ ''$'' @ rev pw"

definition demo_check :: "string \<Rightarrow> pyval \<Rightarrow> py_exception + bool" where
  "demo_check pwhash pw =
     (let method = takeWhile (\<lambda>c. c \<noteq> CHR ''$'') pwhash;
          rest = dropWhile (\<lambda>c. c \<noteq> CHR ''$'') pwhash
      in
      if rest = [] then Inr False
      else
        (let rest' = dropWhile (\<lambda>c. c \<noteq> CHR ''$'') (tl rest) in
         if rest' = [] then Inr False
         else
           (case pw of
              Other \<Rightarrow> Inl AttributeError
            | Str p \<Rightarrow>
                if method = ''demo'' then Inr (rev p = tl rest') else Inl ValueError)))"

text \<open>
  A stand-in for \<open>secure_filename\<close> on ASCII names under POSIX: path separators become
  spaces, the whitespace-separated words are joined by underscores, every character other
  than letters, digits, underscore, dot and hyphen is dropped, and leading and trailing
  dots and underscores are stripped.
\<close>

fun split_ws :: "string \<Rightarrow> string \<Rightarrow> string list" where
  "split_ws [] cur = (if cur = [] then [] else [rev cur])"
| "split_ws (c # cs) cur =
     (if py_isspace c then (if cur = [] then split_ws cs [] else rev cur # split_ws cs [])
      else split_ws cs (c # cur))"

fun join_underscore :: "string list \<Rightarrow> string" where
  "join_underscore [] = []"
| "join_underscore [w] = w"
| "join_underscore (w # ws) = w @ CHR ''_'' # join_underscore ws"

definition filename_char :: "char \<Rightarrow> bool" where
  "filename_char c = (let n = (of_char c :: nat) in
      (65 \<le> n \<and> n \<le> 90) \<or> (97 \<le> n \<and> n \<le> 122) \<or> (48 \<le> n \<and> n \<le> 57) \<or>
      c = CHR ''_'' \<or> c = CHR ''.'' \<or> c = CHR ''-'')"

definition dot_or_underscore :: "char \<Rightarrow> bool" where
  "dot_or_underscore c = (c = CHR ''.'' \<or> c = CHR ''_'')"

definition demo_secure_filename :: "string \<Rightarrow> string" where
  "demo_secure_filename s =
     (let s1 = map (\<lambda>c. if c = CHR ''/'' then CHR '' '' else c) s;
          s2 = filter filename_char (join_underscore (split_ws s1 []))
      in rev (dropWhile dot_or_underscore (rev (dropWhile dot_or_underscore s2))))"

text \<open>Example rows and states for running the handlers.\<close>

definition alice :: user where
  "alice = \<lparr>username = ''alice'', password = demo_hash ''na'' ''pw123'',
             full_name = ''Alice A'', email = Some ''Alice@Example.com'', role = ''Viewer''\<rparr>"

definition guest :: "string \<Rightarrow> user" where
  "guest un = \<lparr>username = un, password = demo_hash ''na'' ''pw'', full_name = un,
                email = None, role = ''Viewer''\<rparr>"

definition eve_email :: string where
  "eve_email = CHR 0xC9 # ''ve@example.com''"

definition report :: document where
  "report = \<lparr>doc_id = 1, filename = ''report.pdf'', department = ''HR'', category = ''Report''\<rparr>"

section \<open>Basic facts\<close>

text \<open>Setting bit 5 of an upper-case letter adds 32 to its code point.\<close>

lemma plus32_of_char:
  "ascii_upper c \<or> latin1_upper c \<Longrightarrow> of_char (plus32 c) = of_char c + (32::nat)"
proof (cases c)
  case (Char b0 b1 b2 b3 b4 b5 b6 b7)
  assume "ascii_upper c \<or> latin1_upper c"
  with Char show ?thesis
    by (cases b5; cases b6; cases b7; cases b4; cases b3; cases b2; cases b1; cases b0)
       (simp_all add: ascii_upper_def latin1_upper_def)
qed

text \<open>On ASCII strings Python's and SQLite's lower-casing agree.\<close>

lemma lower_ascii: "is_ascii s \<Longrightarrow> lower s = sql_lower s"
  by (induction s) (auto simp: is_ascii_def lower_def sql_lower_def latin1_upper_def)

lemma username_taken_iff: "username_taken un db \<longleftrightarrow> (\<exists>r\<in>set db. username r = un)"
  by (simp add: username_taken_def list_ex_iff)


lemma get_user_by_username_None:
  "get_user_by_username un db = None \<longleftrightarrow> \<not> username_taken un db"
  by (auto simp add: get_user_by_username_def find_None_iff username_taken_iff)

lemma get_user_by_username_Some:
  "get_user_by_username un db = Some u \<Longrightarrow> u \<in> set db \<and> username u = un"
  by (auto simp add: get_user_by_username_def find_Some_iff)

lemma sql_insert_Inr:
  "sql_insert un pw fn em rl db = Inr db' \<longleftrightarrow>
     (\<exists>p. pw = Some p \<and> \<not> username_taken un db \<and> \<not> email_taken em db \<and>
          db' = db @ [\<lparr>username = un, password = p, full_name = fn, email = em, role = rl\<rparr>])"
  by (cases pw) (auto simp add: sql_insert_def)


subsection \<open>The legacy import, entry by entry\<close>


lemma insert_all_rows:
  "r \<in> set (insert_all es db) \<Longrightarrow> r \<in> set db \<or> (\<exists>(un, d)\<in>set es. imported un d r)"
proof (induction es arbitrary: db)
  case Nil
  then show ?case by simp
next
  case (Cons x es)
  obtain un d where x: "x = (un, d)" by (cases x)
  show ?case
  proof (cases "sql_insert un (l_password d) (py_or (l_full_name d) un) (l_email d) (py_or (l_role d) ''Viewer'') db")
    case (Inl e)
    with Cons.prems x have "r \<in> set (insert_all es db)" by (cases e) simp
    from Cons.IH [OF this] show ?thesis by auto
  next
    case (Inr db')
    with Cons.prems x have "r \<in> set (insert_all es db')" by simp
    from Cons.IH [OF this] have "r \<in> set db' \<or> (\<exists>(un, d)\<in>set es. imported un d r)" .
    moreover from Inr have "r \<in> set db' \<Longrightarrow> r \<in> set db \<or> imported un d r"
      by (auto simp add: sql_insert_Inr imported_def)
    ultimately show ?thesis using x by auto
  qed
qed








subsection \<open>Uploads\<close>

lemma demo_secure_filename_chars: "set (demo_secure_filename s) \<subseteq> {c. filename_char c}"
proof -
  have "set (demo_secure_filename s) \<subseteq> set (filter filename_char (join_underscore (split_ws (map (\<lambda>c. if c = CHR ''/'' then CHR '' '' else c) s) [])))"
    unfolding demo_secure_filename_def Let_def
    by (auto dest!: set_dropWhileD)
  then show ?thesis by auto
qed

lemma demo_secure_filename_no_slash: "CHR ''/'' \<notin> set (demo_secure_filename s)"
  using demo_secure_filename_chars [of s] by (auto simp add: filename_char_def)

lemma find_distinct:
  "distinct (map f xs) \<Longrightarrow> x \<in> set xs \<Longrightarrow> find (\<lambda>y. f y = f x) xs = Some x"
  by (induction xs) auto

lemma rsplit_dot_last_ext:
  "CHR ''.'' \<notin> set ext \<Longrightarrow> rsplit_dot_last (base @ CHR ''.'' # ext) = ext"
proof -
  assume "CHR ''.'' \<notin> set ext"
  then have "takeWhile (\<lambda>c. c \<noteq> CHR ''.'') (rev ext @ CHR ''.'' # rev base) =
      rev ext @ takeWhile (\<lambda>c. c \<noteq> CHR ''.'') (CHR ''.'' # rev base)"
    by (intro takeWhile_append2) auto
  then show ?thesis by (simp add: rsplit_dot_last_def)
qed

lemma allowed_file_ext:
  "CHR ''.'' \<notin> set ext \<Longrightarrow>
     allowed_file (base @ CHR ''.'' # ext) \<longleftrightarrow> lower ext \<in> ALLOWED_EXTENSIONS"
  by (simp add: allowed_file_def rsplit_dot_last_ext)

lemma allowed_file_no_dot: "CHR ''.'' \<notin> set fname \<Longrightarrow> \<not> allowed_file fname"
  by (simp add: allowed_file_def)

lemma upload_no_file:
  "file = None \<or> file = Some ([], content) \<Longrightarrow>
     upload sf POST file dept cat st = (Redirect ''No file selected'' ''upload'', st)"
  by (auto simp add: upload_def)

lemma upload_rejected:
  "fname \<noteq> [] \<Longrightarrow> \<not> allowed_file fname \<Longrightarrow>
     upload sf POST (Some (fname, content)) dept cat st =
       (Redirect ''Invalid file type. Allowed: pdf, doc, docx, jpg, png'' ''upload'', st)"
  by (simp add: upload_def)

lemma upload_accepted_rows:
  "d \<in> set (documents (snd (upload sf m (Some (fname, content)) dept cat st))) \<Longrightarrow>
     d \<in> set (documents st) \<or> filename d = sf fname"
  by (auto simp add: upload_def add_document_def split: if_splits sum.splits option.splits)

lemma upload_accepted_files:
  "n \<noteq> sf fname \<Longrightarrow>
     uploads (snd (upload sf m (Some (fname, content)) dept cat st)) n = uploads st n"
  by (auto simp add: upload_def file_save_def split: if_splits sum.splits option.splits)

lemma upload_accepted_ok:
  assumes "allowed_file fname" "sf fname \<noteq> []" "uploads st (sf fname) \<noteq> Some Directory"
  shows "upload sf POST (Some (fname, content)) (Some d) (Some c) st =
     (Redirect ''File uploaded successfully!'' ''index'',
      \<lparr>documents = documents st @ [\<lparr>doc_id = next_id (documents st), filename = sf fname,
                                    department = d, category = c\<rparr>],
       uploads = (uploads st)(sf fname \<mapsto> File content)\<rparr>)"
proof -
  from assms(1) have "fname \<noteq> []" by (auto simp add: allowed_file_def)
  with assms show ?thesis
    by (simp add: upload_def file_save_def add_document_def)
qed

subsection \<open>Signup, lookup and login\<close>

lemmas eval_simps =
  signup_def login_def lookup_user_def get_session_payload_def
  strip_def py_isspace_def py_or_def get_def get_default_def get_or_def py_strip_def
  get_user_by_username_def get_user_by_email_def email_matches_def
  create_user_def sql_insert_def username_taken_def email_taken_def
  lower_def sql_lower_def ascii_upper_def latin1_upper_def is_ascii_def
  migrate_users_from_json_def load_users_from_json_def Let_def
  demo_hash_def demo_check_def alice_def guest_def eve_email_def

text \<open>
  Signup on a request whose username, full name, email and role are strings (or falsy, or
  absent): none of the four \<open>.strip()\<close> calls raises.
\<close>

lemma signup_strings:
  assumes "get_or payload ''username'' [] = Str u" and "get_or payload ''full_name'' [] = Str f"
    and "get_or payload ''email'' [] = Str m" and "get_or payload ''role'' ''Viewer'' = Str rr"
  shows "signup gph salt (Object payload) db =
     (if strip u = [] \<or> get_or payload ''password'' [] = Str [] \<or> strip f = [] then
        ((Error_body ''Username, full name and password are required.'', 400), db)
      else if get_user_by_username (strip u) db \<noteq> None then
        ((Error_body ''Username already exists.'', 409), db)
      else if strip m \<noteq> [] \<and> get_user_by_email (strip m) db \<noteq> None then
        ((Error_body ''Email already in use.'', 409), db)
      else
        (case get_or payload ''password'' [] of
           Other \<Rightarrow> ((Unhandled AttributeError, 500), db)
         | Str p \<Rightarrow>
             (case create_user (strip u) (gph salt p) (strip f)
                     (if strip m = [] then None else Some (strip m))
                     (py_or (Some (strip rr)) ''Viewer'') db of
                Inl IntegrityError \<Rightarrow>
                  ((Error_body ''Unable to create account. Please try again.'', 500), db)
              | Inr db' \<Rightarrow>
                  ((Signup_body ''Account created successfully. Please sign in.'' (strip u)
                      (strip f), 201), db'))))"
  using assms by (auto simp add: signup_def py_strip_def Let_def)

text \<open>Signup on any other request: an exception that no handler catches, and no row.\<close>

lemma signup_ill_typed:
  "signup gph salt Non_object db = ((Unhandled AttributeError, 500), db)"
  "get_or payload ''username'' [] = Other \<or> get_or payload ''full_name'' [] = Other \<or>
   get_or payload ''email'' [] = Other \<or> get_or payload ''role'' ''Viewer'' = Other \<Longrightarrow>
     signup gph salt (Object payload) db = ((Unhandled AttributeError, 500), db)"
  by (auto simp add: signup_def py_strip_def split: pyval.splits)

lemma signup_store:
  "(if snd (fst (signup gph salt request db)) = 201
    then \<exists>r p payload. request = Object payload \<and> get_or payload ''password'' [] = Str p \<and>
             snd (signup gph salt request db) = db @ [r] \<and> password r = gph salt p
    else snd (signup gph salt request db) = db)"
proof (cases request)
  case Non_object
  then show ?thesis by (simp add: signup_ill_typed)
next
  case (Object payload)
  show ?thesis
  proof (cases "get_or payload ''username'' [] = Other \<or> get_or payload ''full_name'' [] = Other \<or>
      get_or payload ''email'' [] = Other \<or> get_or payload ''role'' ''Viewer'' = Other")
    case True
    then show ?thesis using Object by (simp add: signup_ill_typed)
  next
    case False
    then obtain u f m rr where "get_or payload ''username'' [] = Str u"
      "get_or payload ''full_name'' [] = Str f" "get_or payload ''email'' [] = Str m"
      "get_or payload ''role'' ''Viewer'' = Str rr"
      by (metis pyval.exhaust)
    then show ?thesis using Object
      by (auto simp add: signup_strings create_user_def sql_insert_def split: pyval.splits)
  qed
qed

lemma signup_never_plaintext:
  assumes "\<forall>p. gph salt p \<noteq> p" "r \<in> set (snd (signup gph salt (Object payload) db))"
  shows "r \<in> set db \<or> get_or payload ''password'' [] \<noteq> Str (password r)"
  using assms signup_store [of gph salt "Object payload" db]
  by (auto split: if_splits)

text \<open>
  Login when \<open>check_password_hash\<close> returns: a wrong password for a known user and an
  unknown identifier are answered alike, and neither touches the session.
\<close>

lemma login_wrong_password_or_unknown_user:
  assumes "get_or p1 ''username'' [] = Str i1" and "strip i1 \<noteq> []"
    and "get_or p1 ''password'' [] = w1" and "w1 \<noteq> Str []"
    and "lookup_user (strip i1) db1 = Some (un, u)" and "cph (password u) w1 = Inr False"
    and "get_or p2 ''username'' [] = Str i2" and "strip i2 \<noteq> []"
    and "get_or p2 ''password'' [] \<noteq> Str []"
    and "lookup_user (strip i2) db2 = None"
  shows "login cph (Object p1) s1 db1 =
           ((Error_body ''Invalid username or password.'', 401), s1) \<and>
         login cph (Object p2) s2 db2 =
           ((Error_body ''Invalid username or password.'', 401), s2)"
  using assms by (simp add: login_def py_strip_def Let_def)

text \<open>Login when \<open>check_password_hash\<close> raises for the known user: status 500.\<close>

lemma login_check_raises:
  assumes "get_or p1 ''username'' [] = Str i1" and "strip i1 \<noteq> []"
    and "get_or p1 ''password'' [] = w1" and "w1 \<noteq> Str []"
    and "lookup_user (strip i1) db = Some (un, u)" and "cph (password u) w1 = Inl exn"
  shows "login cph (Object p1) s1 db = ((Unhandled exn, 500), s1)"
  using assms by (simp add: login_def py_strip_def Let_def)

lemma demo_hash_not_identity: "demo_hash salt p \<noteq> p"
proof
  assume "demo_hash salt p = p"
  then have "length (demo_hash salt p) = length p" by simp
  then show False by (simp add: demo_hash_def)
qed

lemma load_users_from_json_password:
  "(un, d) \<in> set (load_users_from_json data) \<Longrightarrow>
     \<exists>details. (un, details) \<in> set data \<and> l_password d = get_default details ''password'' []"
  by (auto simp add: load_users_from_json_def)

lemma migrate_rows:
  assumes "r \<in> set (migrate_users_from_json data db)"
  shows "r \<in> set db \<or>
     (\<exists>(un, details)\<in>set data.
        username r = un \<and> get_default details ''password'' [] = Some (password r))"
proof (cases "r \<in> set db")
  case True
  then show ?thesis by simp
next
  case False
  with assms have "r \<in> set (insert_all (load_users_from_json data) db)"
    by (auto simp add: migrate_users_from_json_def Let_def split: if_splits)
  with False obtain un d where "(un, d) \<in> set (load_users_from_json data)" "imported un d r"
    using insert_all_rows by blast
  then show ?thesis
    using load_users_from_json_password [of un d data] by (auto simp add: imported_def)
qed


text \<open>What \<open>lookup_user\<close> guarantees on every table and identifier.\<close>

lemma lookup_user_by_username:
  assumes "ident \<noteq> []" "distinct (map username db)" "r \<in> set db" "username r = ident"
  shows "lookup_user ident db = Some (ident, r)"
proof -
  from assms have "find (\<lambda>y. username y = ident) db = Some r"
    using find_distinct [of username db r] by simp
  with assms show ?thesis by (simp add: lookup_user_def)
qed

lemma lookup_user_by_email:
  assumes "ident \<noteq> []" "\<not> username_taken ident db"
  shows "lookup_user ident db =
     (case find (email_matches ident) db of None \<Rightarrow> None | Some r \<Rightarrow> Some (username r, r))"
proof -
  from assms(2) have "find (\<lambda>r. username r = ident) db = None"
    by (simp add: find_None_iff username_taken_iff)
  with assms(1) show ?thesis by (simp add: lookup_user_def)
qed

lemma lookup_user_sound:
  assumes "lookup_user ident db = Some (un, r)"
  shows "r \<in> set db \<and> un = username r \<and> (username r = ident \<or> email_matches ident r)"
  using assms
  by (auto simp add: lookup_user_def find_Some_iff split: if_splits option.splits)

lemma email_matches_ascii:
  "is_ascii ident \<Longrightarrow>
     email_matches ident r \<longleftrightarrow> (\<exists>e. email r = Some e \<and> sql_lower e = sql_lower ident)"
  by (cases "email r") (simp_all add: email_matches_def lower_ascii)

section \<open>The claims\<close>

text \<open>
  In the statements \<open>gph\<close>, \<open>cph\<close> and \<open>sf\<close> are arbitrary functions in the place of
  \<open>generate_password_hash\<close>, \<open>check_password_hash\<close> and \<open>secure_filename\<close>.
\<close>

text \<open>
  Claim C1, as amended. A signup that answers 201 adds one row, whose stored password is
  \<open>generate_password_hash\<close> of the submitted password (a string, as submitted, not
  trimmed); any other signup leaves the table as it was. So, if the hash of a password is
  never that password, no row that signup adds stores the plaintext. A row that the legacy
  import adds stores the password field of its legacy entry unchanged (the empty string
  when the entry has none): the import applies no hash.
\<close>

theorem stored_password_provenance:
  "(if snd (fst (signup gph salt request db)) = 201
    then \<exists>r p payload. request = Object payload \<and> get_or payload ''password'' [] = Str p \<and>
             snd (signup gph salt request db) = db @ [r] \<and> password r = gph salt p
    else snd (signup gph salt request db) = db) \<and>
   ((\<forall>p. gph salt p \<noteq> p) \<longrightarrow>
      (\<forall>r\<in>set (snd (signup gph salt (Object payload) db)).
         r \<in> set db \<or> get_or payload ''password'' [] \<noteq> Str (password r))) \<and>
   (\<forall>r\<in>set (migrate_users_from_json data db).
      r \<in> set db \<or>
      (\<exists>(un, details)\<in>set data.
         username r = un \<and> get_default details ''password'' [] = Some (password r)))"
proof (intro conjI impI ballI)
  show "if snd (fst (signup gph salt request db)) = 201
    then \<exists>r p payload. request = Object payload \<and> get_or payload ''password'' [] = Str p \<and>
             snd (signup gph salt request db) = db @ [r] \<and> password r = gph salt p
    else snd (signup gph salt request db) = db"
    by (rule signup_store)
next
  fix r
  assume "\<forall>p. gph salt p \<noteq> p" "r \<in> set (snd (signup gph salt (Object payload) db))"
  then show "r \<in> set db \<or> get_or payload ''password'' [] \<noteq> Str (password r)"
    by (rule signup_never_plaintext)
next
  fix r
  assume "r \<in> set (migrate_users_from_json data db)"
  then show "r \<in> set db \<or>
      (\<exists>(un, details)\<in>set data.
         username r = un \<and> get_default details ''password'' [] = Some (password r))"
    by (rule migrate_rows)
qed

text \<open>
  The amended claim at a signup of \<open>bob\<close> on the empty table and at the import of a legacy
  entry for \<open>bob\<close>.
\<close>

theorem stored_password_provenance_witness:
  "snd (signup demo_hash ''na''
         (Object [''username'' \<mapsto> JString ''bob'', ''password'' \<mapsto> JString ''pw123'',
                  ''full_name'' \<mapsto> JString ''Bob B'']) []) =
     [\<lparr>username = ''bob'', password = demo_hash ''na'' ''pw123'', full_name = ''Bob B'',
        email = None, role = ''Viewer''\<rparr>] \<and>
   demo_hash ''na'' ''pw123'' \<noteq> ''pw123'' \<and>
   \<lparr>username = ''bob'', password = ''$legacy$'', full_name = ''bob'', email = None,
      role = ''Viewer''\<rparr>
     \<in> set (migrate_users_from_json [(''bob'', [''password'' \<mapsto> Some ''$legacy$''])] []) \<and>
   get_default [''password'' \<mapsto> Some ''$legacy$''] ''password'' [] = Some ''$legacy$''"
proof -
  let ?P = "[''username'' \<mapsto> JString ''bob'', ''password'' \<mapsto> JString ''pw123'',
             ''full_name'' \<mapsto> JString ''Bob B'']"
  let ?D = "[(''bob'', [''password'' \<mapsto> Some ''$legacy$''])]"
  let ?b = "\<lparr>username = ''bob'', password = demo_hash ''na'' ''pw123'', full_name = ''Bob B'',
              email = None, role = ''Viewer''\<rparr>"
  let ?r = "\<lparr>username = ''bob'', password = ''$legacy$'', full_name = ''bob'', email = None,
              role = ''Viewer''\<rparr>"
  note inst = stored_password_provenance [of demo_hash "''na''" "Object ?P" "[]" ?P ?D]
  have created: "snd (signup demo_hash ''na'' (Object ?P) []) = [?b]"
    by (simp add: eval_simps)
  have pw: "get_or ?P ''password'' [] = Str ''pw123''"
    by (simp add: get_or_def)
  have "\<forall>p. demo_hash ''na'' p \<noteq> p"
    by (simp add: demo_hash_not_identity)
  with inst have "\<forall>r\<in>set (snd (signup demo_hash ''na'' (Object ?P) [])).
      r \<in> set [] \<or> get_or ?P ''password'' [] \<noteq> Str (password r)"
    by blast
  with created pw have hashed: "demo_hash ''na'' ''pw123'' \<noteq> ''pw123''"
    by simp
  have mem: "?r \<in> set (migrate_users_from_json ?D [])"
    by (simp add: eval_simps)
  from inst have "\<forall>r\<in>set (migrate_users_from_json ?D []).
      r \<in> set [] \<or>
      (\<exists>(un, details)\<in>set ?D.
         username r = un \<and> get_default details ''password'' [] = Some (password r))"
    by blast
  with mem have "get_default [''password'' \<mapsto> Some ''$legacy$''] ''password'' [] = Some ''$legacy$''"
    by fastforce
  with created hashed mem show ?thesis by simp
qed

text \<open>
  Claim C1 as stated fails on the legacy import: an entry whose password field is the
  plaintext \<open>pw123\<close> yields a row whose stored password is \<open>pw123\<close> itself.
\<close>

theorem legacy_import_keeps_plaintext:
  "map password (migrate_users_from_json [(''bob'', [''password'' \<mapsto> Some ''pw123''])] []) =
     [''pw123'']"
  by (simp add: eval_simps)

text \<open>
  Claim C2, as amended. Take a signup request whose body is a JSON object (or does not
  parse, or is falsy, which gives the empty object) and whose username, full name, email
  and role are each a string, \<open>null\<close>, falsy or absent. When the username or the full name
  is empty after trimming whitespace, or the password is empty or falsy (the password is
  not trimmed), signup answers 400 with the validation message, whatever the other
  fields are, and leaves the table as it was.
\<close>

theorem signup_required_fields:
  assumes "get_or payload ''username'' [] = Str u" and "get_or payload ''full_name'' [] = Str f"
    and "get_or payload ''email'' [] \<noteq> Other" and "get_or payload ''role'' ''Viewer'' \<noteq> Other"
    and "strip u = [] \<or> get_or payload ''password'' [] = Str [] \<or> strip f = []"
  shows "signup gph salt (Object payload) db =
     ((Error_body ''Username, full name and password are required.'', 400), db)"
proof -
  from assms(3,4) obtain m rr where "get_or payload ''email'' [] = Str m"
    "get_or payload ''role'' ''Viewer'' = Str rr"
    by (metis pyval.exhaust)
  with assms(1,2,5) show ?thesis
    by (simp add: signup_strings)
qed

text \<open>
  The amended claim at a request with the username of \<open>alice\<close>, a password of another
  JSON type, a new email, and a full name of spaces only.
\<close>

theorem signup_required_fields_witness:
  "signup demo_hash ''na''
     (Object [''username'' \<mapsto> JString ''alice'', ''password'' \<mapsto> JTruthy,
              ''full_name'' \<mapsto> JString ''   '', ''email'' \<mapsto> JString ''new@example.com''])
     [alice] =
     ((Error_body ''Username, full name and password are required.'', 400), [alice])"
proof -
  let ?P = "[''username'' \<mapsto> JString ''alice'', ''password'' \<mapsto> JTruthy,
             ''full_name'' \<mapsto> JString ''   '', ''email'' \<mapsto> JString ''new@example.com'']"
  have h: "get_or ?P ''username'' [] = Str ''alice''" "get_or ?P ''full_name'' [] = Str ''   ''"
    "get_or ?P ''email'' [] \<noteq> Other" "get_or ?P ''role'' ''Viewer'' \<noteq> Other"
    by (simp_all add: get_or_def)
  have "strip ''   '' = []"
    by (simp add: strip_def py_isspace_def)
  then have "strip ''alice'' = [] \<or> get_or ?P ''password'' [] = Str [] \<or> strip ''   '' = []"
    by blast
  then show ?thesis
    by (rule signup_required_fields [OF h])
qed

text \<open>
  Claim C2 as stated fails twice. A password of whitespace only is empty after trimming,
  yet signup does not trim it and creates the account. And the answer does depend on the
  other fields: with an empty username and an email that is a number, \<open>.strip()\<close> on the
  email raises before the validation, and the request ends in status 500.
\<close>

theorem signup_validation_not_unconditional:
  "strip '' '' = [] \<and>
   signup demo_hash ''na''
     (Object [''username'' \<mapsto> JString ''bob'', ''password'' \<mapsto> JString '' '',
              ''full_name'' \<mapsto> JString ''Bob B'']) [] =
     ((Signup_body ''Account created successfully. Please sign in.'' ''bob'' ''Bob B'', 201),
      [\<lparr>username = ''bob'', password = demo_hash ''na'' '' '', full_name = ''Bob B'',
         email = None, role = ''Viewer''\<rparr>]) \<and>
   signup demo_hash ''na''
     (Object [''username'' \<mapsto> JString [], ''email'' \<mapsto> JTruthy]) [] =
     ((Unhandled AttributeError, 500), [])"
  by (simp add: eval_simps)




text \<open>
  Beyond ASCII the email check of signup can miss a duplicate (see the next claim); the
  \<open>UNIQUE\<close> constraint then rejects the insert and signup answers 500.
\<close>

lemma signup_duplicate_email_beyond_ascii:
  "signup demo_hash ''na''
     (Object [''username'' \<mapsto> JString ''eva'', ''password'' \<mapsto> JString ''pw'',
              ''full_name'' \<mapsto> JString ''Eva E'', ''email'' \<mapsto> JString eve_email])
     [\<lparr>username = ''eve'', password = demo_hash ''na'' ''pw123'', full_name = ''Eve E'',
        email = Some eve_email, role = ''Viewer''\<rparr>] =
     ((Error_body ''Unable to create account. Please try again.'', 500),
      [\<lparr>username = ''eve'', password = demo_hash ''na'' ''pw123'', full_name = ''Eve E'',
         email = Some eve_email, role = ''Viewer''\<rparr>])"
  by (simp add: eval_simps)

text \<open>
  Claim C4 fails on the code. SQLite's \<open>lower()\<close> leaves the letter with code point 201
  (capital E with acute accent) as it is, while Python's \<open>str.lower()\<close> turns it into code
  point 233. A user who signs up with an email that starts with that letter is stored with
  it, and \<open>lookup_user\<close> then finds no row for the very same email: the match on email is
  not case-insensitive, not even reflexive, beyond ASCII.
\<close>

theorem lookup_user_misses_own_email:
  "snd (signup demo_hash ''na''
          (Object [''username'' \<mapsto> JString ''eve'', ''password'' \<mapsto> JString ''pw123'',
                   ''full_name'' \<mapsto> JString ''Eve E'', ''email'' \<mapsto> JString eve_email]) []) =
     [\<lparr>username = ''eve'', password = demo_hash ''na'' ''pw123'', full_name = ''Eve E'',
        email = Some eve_email, role = ''Viewer''\<rparr>] \<and>
   lookup_user eve_email
     [\<lparr>username = ''eve'', password = demo_hash ''na'' ''pw123'', full_name = ''Eve E'',
        email = Some eve_email, role = ''Viewer''\<rparr>] = None"
  by (simp add: eval_simps)

text \<open>
  Claim C5. Without a session (no \<open>user\<close> key, or an empty one) the payload is
  unauthenticated and the session is left alone. With a session whose user has no row,
  the payload is unauthenticated and the session is cleared. Otherwise the payload is
  authenticated and carries the session's username and the display name, role and email
  of the row that the table holds at this call; the session keeps nothing but the
  username.
\<close>

theorem get_session_payload_cases:
  "((sess = None \<or> sess = Some []) \<longrightarrow>
      get_session_payload sess db = (Unauthenticated, sess)) \<and>
   (sess = Some un \<and> un \<noteq> [] \<and> \<not> username_taken un db \<longrightarrow>
      get_session_payload sess db = (Unauthenticated, None)) \<and>
   (sess = Some un \<and> un \<noteq> [] \<and> distinct (map username db) \<and> u \<in> set db \<and> username u = un \<longrightarrow>
      get_session_payload sess db =
        (Authenticated un (if full_name u = [] then un else full_name u) (role u) (email u), sess))"
proof (intro conjI impI)
  assume "sess = None \<or> sess = Some []"
  then show "get_session_payload sess db = (Unauthenticated, sess)"
    by (auto simp add: get_session_payload_def)
next
  assume a: "sess = Some un \<and> un \<noteq> [] \<and> \<not> username_taken un db"
  then have "get_user_by_username un db = None"
    by (simp add: get_user_by_username_None)
  with a show "get_session_payload sess db = (Unauthenticated, None)"
    by (simp add: get_session_payload_def)
next
  assume a: "sess = Some un \<and> un \<noteq> [] \<and> distinct (map username db) \<and> u \<in> set db \<and> username u = un"
  then have "get_user_by_username un db = Some u"
    using find_distinct [of username db u] by (auto simp add: get_user_by_username_def)
  with a show "get_session_payload sess db =
        (Authenticated un (if full_name u = [] then un else full_name u) (role u) (email u), sess)"
    by (simp add: get_session_payload_def py_or_def)
qed

text \<open>
  The three cases at concrete sessions: none; one for \<open>alice\<close> after her row is gone; one
  for \<open>alice\<close> while the table holds her row.
\<close>

theorem get_session_payload_cases_witness:
  "get_session_payload None [alice] = (Unauthenticated, None) \<and>
   get_session_payload (Some ''alice'') [] = (Unauthenticated, None) \<and>
   get_session_payload (Some ''alice'') [guest ''bob'', alice] =
     (Authenticated ''alice'' ''Alice A'' ''Viewer'' (Some ''Alice@Example.com''), Some ''alice'')"
proof -
  from get_session_payload_cases [of None "[alice]" "''alice''" alice]
  have 1: "get_session_payload None [alice] = (Unauthenticated, None)"
    by simp
  from get_session_payload_cases [of "Some ''alice''" "[]" "''alice''" alice]
  have 2: "get_session_payload (Some ''alice'') [] = (Unauthenticated, None)"
    by (simp add: username_taken_def)
  have "distinct (map username [guest ''bob'', alice])" "alice \<in> set [guest ''bob'', alice]"
    "username alice = ''alice''"
    by (simp_all add: alice_def guest_def)
  with get_session_payload_cases [of "Some ''alice''" "[guest ''bob'', alice]" "''alice''" alice]
  have "get_session_payload (Some ''alice'') [guest ''bob'', alice] =
     (Authenticated ''alice'' (if full_name alice = [] then ''alice'' else full_name alice)
        (role alice) (email alice), Some ''alice'')"
    by simp
  then have 3: "get_session_payload (Some ''alice'') [guest ''bob'', alice] =
     (Authenticated ''alice'' ''Alice A'' ''Viewer'' (Some ''Alice@Example.com''), Some ''alice'')"
    by (simp add: alice_def)
  from 1 2 3 show ?thesis by simp
qed

text \<open>
  Claim C6 fails on the code. The handler answers a wrong password and an unknown
  identifier alike only when \<open>check_password_hash\<close> returns (lemma
  \<open>login_wrong_password_or_unknown_user\<close>). The call is made for a known user only, and an
  exception it raises is not caught (lemma \<open>login_check_raises\<close>). With a password that is
  a JSON number the call raises for the known user \<open>alice\<close>, status 500, while the same
  request for \<open>mallory\<close>, who has no account, gets 401. The same happens with any password
  for a user whose stored value is no hash that werkzeug knows, as the legacy import may
  store: here \<open>bob\<close>, imported with the stored value \<open>$legacy$\<close>.
\<close>

theorem login_reveals_known_user:
  "login demo_check (Object [''username'' \<mapsto> JString ''alice'', ''password'' \<mapsto> JTruthy])
     None [alice] =
     ((Unhandled AttributeError, 500), None) \<and>
   login demo_check (Object [''username'' \<mapsto> JString ''mallory'', ''password'' \<mapsto> JTruthy])
     None [alice] =
     ((Error_body ''Invalid username or password.'', 401), None) \<and>
   login demo_check (Object [''username'' \<mapsto> JString ''bob'', ''password'' \<mapsto> JString ''guess''])
     None (migrate_users_from_json [(''bob'', [''password'' \<mapsto> Some ''$legacy$''])] []) =
     ((Unhandled ValueError, 500), None) \<and>
   login demo_check (Object [''username'' \<mapsto> JString ''mallory'', ''password'' \<mapsto> JString ''guess''])
     None (migrate_users_from_json [(''bob'', [''password'' \<mapsto> Some ''$legacy$''])] []) =
     ((Error_body ''Invalid username or password.'', 401), None)"
  by (simp add: eval_simps)




text \<open>
  Claim C8, as amended. For an id that no row has, delete answers 404 and changes
  nothing. For the id of a row whose file is a regular file or is missing, delete
  succeeds, removes the row (and no other) and leaves no file under that name: a file
  that is not found is the one removal failure it swallows.
\<close>

theorem delete_best_effort:
  "(i \<notin> doc_id ` set (documents st) \<longrightarrow> delete i st = (Not_found, st)) \<and>
   (distinct (map doc_id (documents st)) \<and> doc \<in> set (documents st) \<and> doc_id doc = i \<and>
    uploads st (filename doc) \<noteq> Some Directory \<longrightarrow>
      delete i st =
        (Redirect ''File deleted successfully!'' ''index'',
         \<lparr>documents = filter (\<lambda>d. doc_id d \<noteq> i) (documents st),
          uploads = (uploads st)(filename doc := None)\<rparr>))"
proof (intro conjI impI)
  assume "i \<notin> doc_id ` set (documents st)"
  then have "find (\<lambda>d. doc_id d = i) (documents st) = None"
    by (auto simp add: find_None_iff)
  then show "delete i st = (Not_found, st)"
    by (simp add: delete_def)
next
  assume a: "distinct (map doc_id (documents st)) \<and> doc \<in> set (documents st) \<and> doc_id doc = i \<and>
    uploads st (filename doc) \<noteq> Some Directory"
  then have "find (\<lambda>d. doc_id d = i) (documents st) = Some doc"
    using find_distinct [of doc_id "documents st" doc] by auto
  moreover have "uploads st (filename doc) = None \<Longrightarrow>
      (uploads st)(filename doc := None) = uploads st"
    by auto
  ultimately show "delete i st =
        (Redirect ''File deleted successfully!'' ''index'',
         \<lparr>documents = filter (\<lambda>d. doc_id d \<noteq> i) (documents st),
          uploads = (uploads st)(filename doc := None)\<rparr>)"
    using a by (cases "uploads st (filename doc)")
      (auto simp add: delete_def os_remove_def split: node.splits)
qed

text \<open>
  The amended claim at the document \<open>report\<close>: an id that is absent; the row with its file
  already removed; the row with its file in place.
\<close>

theorem delete_best_effort_witness:
  "delete 7 \<lparr>documents = [report], uploads = Map.empty\<rparr> =
     (Not_found, \<lparr>documents = [report], uploads = Map.empty\<rparr>) \<and>
   delete 1 \<lparr>documents = [report], uploads = Map.empty\<rparr> =
     (Redirect ''File deleted successfully!'' ''index'', \<lparr>documents = [], uploads = Map.empty\<rparr>) \<and>
   delete 1 \<lparr>documents = [report], uploads = [''report.pdf'' \<mapsto> File ''bytes'']\<rparr> =
     (Redirect ''File deleted successfully!'' ''index'', \<lparr>documents = [], uploads = Map.empty\<rparr>)"
proof -
  let ?s0 = "\<lparr>documents = [report], uploads = Map.empty\<rparr>"
  let ?s1 = "\<lparr>documents = [report], uploads = [''report.pdf'' \<mapsto> File ''bytes'']\<rparr>"
  from delete_best_effort [of 7 ?s0 report]
  have 1: "delete 7 ?s0 = (Not_found, ?s0)"
    by (simp add: report_def)
  from delete_best_effort [of 1 ?s0 report]
  have 2: "delete 1 ?s0 =
     (Redirect ''File deleted successfully!'' ''index'', \<lparr>documents = [], uploads = Map.empty\<rparr>)"
    by (simp add: report_def)
  from delete_best_effort [of 1 ?s1 report]
  have 3: "delete 1 ?s1 =
     (Redirect ''File deleted successfully!'' ''index'', \<lparr>documents = [], uploads = Map.empty\<rparr>)"
    by (simp add: report_def)
  from 1 2 3 show ?thesis by simp
qed

text \<open>
  Claim C8 as stated fails when the removal fails for another reason than a missing
  file: with a directory under the document's name, \<open>os.remove\<close> raises an error that the
  handler does not catch, the request ends in a server error and the row stays.
\<close>

theorem delete_keeps_row_when_removal_fails:
  "delete 1 \<lparr>documents = [report], uploads = [''report.pdf'' \<mapsto> Directory]\<rparr> =
     (Internal_error, \<lparr>documents = [report], uploads = [''report.pdf'' \<mapsto> Directory]\<rparr>)"
  by (simp add: delete_def os_remove_def report_def)

text \<open>
  Claim C9. A POST to upload with no file, or a file with an empty name, is turned away
  with \<open>No file selected\<close>; one whose name has no dot, or whose part after the last dot,
  lower-cased, is not one of pdf, doc, docx, jpg, jpeg, png, is turned away with
  \<open>Invalid file type\<close>; either way nothing is stored. \<open>malware.exe\<close> is not an allowed name
  and \<open>report.PDF\<close> is. Whatever an upload stores is stored under the sanitized name: a
  new row carries it, no file under another name changes, and an allowed name whose
  sanitized name is free to write, sent with department and category, is saved and
  registered under the sanitized name.
\<close>

theorem upload_validation:
  "(file = None \<or> file = Some ([], content) \<longrightarrow>
      upload sf POST file dept cat st = (Redirect ''No file selected'' ''upload'', st)) \<and>
   (fname \<noteq> [] \<and>
    (CHR ''.'' \<notin> set fname \<or>
     (\<exists>base ext. fname = base @ CHR ''.'' # ext \<and> CHR ''.'' \<notin> set ext \<and>
                 lower ext \<notin> ALLOWED_EXTENSIONS)) \<longrightarrow>
      upload sf POST (Some (fname, content)) dept cat st =
        (Redirect ''Invalid file type. Allowed: pdf, doc, docx, jpg, png'' ''upload'', st)) \<and>
   \<not> allowed_file ''malware.exe'' \<and> allowed_file ''report.PDF'' \<and>
   (\<forall>d\<in>set (documents (snd (upload sf POST (Some (fname, content)) dept cat st))).
      d \<in> set (documents st) \<or> filename d = sf fname) \<and>
   (\<forall>n. n \<noteq> sf fname \<longrightarrow>
      uploads (snd (upload sf POST (Some (fname, content)) dept cat st)) n = uploads st n) \<and>
   (fname = stem @ CHR ''.'' # suffix \<and> CHR ''.'' \<notin> set suffix \<and>
    lower suffix \<in> ALLOWED_EXTENSIONS \<and>
    sf fname \<noteq> [] \<and> uploads st (sf fname) \<noteq> Some Directory \<longrightarrow>
      upload sf POST (Some (fname, content)) (Some dp) (Some ct) st =
        (Redirect ''File uploaded successfully!'' ''index'',
         \<lparr>documents = documents st @ [\<lparr>doc_id = next_id (documents st), filename = sf fname,
                                       department = dp, category = ct\<rparr>],
          uploads = (uploads st)(sf fname \<mapsto> File content)\<rparr>))"
proof (intro conjI impI ballI allI)
  assume "file = None \<or> file = Some ([], content)"
  then show "upload sf POST file dept cat st = (Redirect ''No file selected'' ''upload'', st)"
    by (rule upload_no_file)
next
  assume a: "fname \<noteq> [] \<and>
    (CHR ''.'' \<notin> set fname \<or>
     (\<exists>base ext. fname = base @ CHR ''.'' # ext \<and> CHR ''.'' \<notin> set ext \<and>
                 lower ext \<notin> ALLOWED_EXTENSIONS))"
  then have "\<not> allowed_file fname"
    using allowed_file_no_dot allowed_file_ext by blast
  with a show "upload sf POST (Some (fname, content)) dept cat st =
        (Redirect ''Invalid file type. Allowed: pdf, doc, docx, jpg, png'' ''upload'', st)"
    by (simp add: upload_rejected)
next
  show "\<not> allowed_file ''malware.exe''"
    by (simp add: allowed_file_def rsplit_dot_last_def lower_def ascii_upper_def latin1_upper_def
        ALLOWED_EXTENSIONS_def)
next
  show "allowed_file ''report.PDF''"
    by (simp add: allowed_file_def rsplit_dot_last_def lower_def ascii_upper_def latin1_upper_def
        ALLOWED_EXTENSIONS_def)
next
  fix d
  assume "d \<in> set (documents (snd (upload sf POST (Some (fname, content)) dept cat st)))"
  then show "d \<in> set (documents st) \<or> filename d = sf fname"
    by (rule upload_accepted_rows)
next
  fix n
  assume "n \<noteq> sf fname"
  then show "uploads (snd (upload sf POST (Some (fname, content)) dept cat st)) n = uploads st n"
    by (rule upload_accepted_files)
next
  assume a: "fname = stem @ CHR ''.'' # suffix \<and> CHR ''.'' \<notin> set suffix \<and>
    lower suffix \<in> ALLOWED_EXTENSIONS \<and>
    sf fname \<noteq> [] \<and> uploads st (sf fname) \<noteq> Some Directory"
  then have "allowed_file fname" "sf fname \<noteq> []" "uploads st (sf fname) \<noteq> Some Directory"
    by (auto simp add: allowed_file_ext)
  then show "upload sf POST (Some (fname, content)) (Some dp) (Some ct) st =
        (Redirect ''File uploaded successfully!'' ''index'',
         \<lparr>documents = documents st @ [\<lparr>doc_id = next_id (documents st), filename = sf fname,
                                       department = dp, category = ct\<rparr>],
          uploads = (uploads st)(sf fname \<mapsto> File content)\<rparr>)"
    by (rule upload_accepted_ok)
qed

text \<open>
  The claim at three uploads into the empty registry: no file; \<open>malware.exe\<close>; and a file
  whose name tries to leave the upload folder, which is stored as \<open>etc_report.PDF\<close>.
\<close>

theorem upload_validation_witness:
  "upload demo_secure_filename POST None (Some ''HR'') (Some ''Report'')
     \<lparr>documents = [], uploads = Map.empty\<rparr> =
     (Redirect ''No file selected'' ''upload'', \<lparr>documents = [], uploads = Map.empty\<rparr>) \<and>
   upload demo_secure_filename POST (Some (''malware.exe'', ''MZ'')) (Some ''HR'') (Some ''Report'')
     \<lparr>documents = [], uploads = Map.empty\<rparr> =
     (Redirect ''Invalid file type. Allowed: pdf, doc, docx, jpg, png'' ''upload'',
      \<lparr>documents = [], uploads = Map.empty\<rparr>) \<and>
   upload demo_secure_filename POST (Some (''../../etc/report.PDF'', ''bytes''))
     (Some ''HR'') (Some ''Report'') \<lparr>documents = [], uploads = Map.empty\<rparr> =
     (Redirect ''File uploaded successfully!'' ''index'',
      \<lparr>documents = [\<lparr>doc_id = 1, filename = ''etc_report.PDF'', department = ''HR'',
                       category = ''Report''\<rparr>],
       uploads = [''etc_report.PDF'' \<mapsto> File ''bytes'']\<rparr>)"
proof -
  let ?s0 = "\<lparr>documents = [], uploads = Map.empty\<rparr>"
  have sf: "demo_secure_filename ''../../etc/report.PDF'' = ''etc_report.PDF''"
    by (simp add: demo_secure_filename_def py_isspace_def filename_char_def
        dot_or_underscore_def)
  from upload_validation [of None "''MZ''" demo_secure_filename "Some ''HR''" "Some ''Report''" ?s0]
  have 1: "upload demo_secure_filename POST None (Some ''HR'') (Some ''Report'') ?s0 =
     (Redirect ''No file selected'' ''upload'', ?s0)"
    by simp
  have "''malware.exe'' = ''malware'' @ CHR ''.'' # ''exe'' \<and> CHR ''.'' \<notin> set ''exe'' \<and>
      lower ''exe'' \<notin> ALLOWED_EXTENSIONS"
    by (simp add: lower_def ascii_upper_def latin1_upper_def ALLOWED_EXTENSIONS_def)
  then have "\<exists>base ext. ''malware.exe'' = base @ CHR ''.'' # ext \<and> CHR ''.'' \<notin> set ext \<and>
      lower ext \<notin> ALLOWED_EXTENSIONS"
    by blast
  then have p2: "''malware.exe'' \<noteq> [] \<and>
    (CHR ''.'' \<notin> set ''malware.exe'' \<or>
     (\<exists>base ext. ''malware.exe'' = base @ CHR ''.'' # ext \<and> CHR ''.'' \<notin> set ext \<and>
                 lower ext \<notin> ALLOWED_EXTENSIONS))"
    by blast
  note rejected = upload_validation [where fname = "''malware.exe''" and content = "''MZ''"
      and sf = demo_secure_filename and dept = "Some ''HR''" and cat = "Some ''Report''"
      and st = ?s0, THEN conjunct2, THEN conjunct1, THEN mp]
  have 2: "upload demo_secure_filename POST (Some (''malware.exe'', ''MZ'')) (Some ''HR'')
      (Some ''Report'') ?s0 =
     (Redirect ''Invalid file type. Allowed: pdf, doc, docx, jpg, png'' ''upload'', ?s0)"
    by (rule rejected [OF p2])
  have p3: "''../../etc/report.PDF'' = ''../../etc/report'' @ CHR ''.'' # ''PDF'' \<and>
    CHR ''.'' \<notin> set ''PDF'' \<and> lower ''PDF'' \<in> ALLOWED_EXTENSIONS \<and>
    demo_secure_filename ''../../etc/report.PDF'' \<noteq> [] \<and>
    uploads ?s0 (demo_secure_filename ''../../etc/report.PDF'') \<noteq> Some Directory"
    by (simp add: sf lower_def ascii_upper_def latin1_upper_def ALLOWED_EXTENSIONS_def)
  note accepted = upload_validation [where fname = "''../../etc/report.PDF''"
      and content = "''bytes''" and sf = demo_secure_filename and st = ?s0
      and stem = "''../../etc/report''" and suffix = "''PDF''" and dp = "''HR''"
      and ct = "''Report''", THEN conjunct2, THEN conjunct2, THEN conjunct2, THEN conjunct2,
      THEN conjunct2, THEN conjunct2, THEN mp]
  have "upload demo_secure_filename POST (Some (''../../etc/report.PDF'', ''bytes''))
      (Some ''HR'') (Some ''Report'') ?s0 =
     (Redirect ''File uploaded successfully!'' ''index'',
      \<lparr>documents = documents ?s0 @
         [\<lparr>doc_id = next_id (documents ?s0),
            filename = demo_secure_filename ''../../etc/report.PDF'',
            department = ''HR'', category = ''Report''\<rparr>],
       uploads = (uploads ?s0)(demo_secure_filename ''../../etc/report.PDF'' \<mapsto> File ''bytes'')\<rparr>)"
    by (rule accepted [OF p3])
  also have "\<dots> = (Redirect ''File uploaded successfully!'' ''index'',
      \<lparr>documents = [\<lparr>doc_id = 1, filename = ''etc_report.PDF'', department = ''HR'',
                       category = ''Report''\<rparr>],
       uploads = [''etc_report.PDF'' \<mapsto> File ''bytes'']\<rparr>)"
    by (simp add: sf next_id_def)
  finally have 3: "upload demo_secure_filename POST (Some (''../../etc/report.PDF'', ''bytes''))
      (Some ''HR'') (Some ''Report'') ?s0 =
     (Redirect ''File uploaded successfully!'' ''index'',
      \<lparr>documents = [\<lparr>doc_id = 1, filename = ''etc_report.PDF'', department = ''HR'',
                       category = ''Report''\<rparr>],
       uploads = [''etc_report.PDF'' \<mapsto> File ''bytes'']\<rparr>)" .
  from 1 2 3 show ?thesis by simp
qed

text \<open>
  Claim C10. When the email of a signup request is absent, \<open>null\<close>, falsy, empty or
  whitespace only, and the request is otherwise valid (username, full name and role are
  strings, \<open>null\<close>, falsy or absent; username, full name and the password string are not
  empty) with a new username, signup creates the account with no email (\<open>NULL\<close>) whatever
  the table holds: the duplicate-email check is not run, and rows without email never
  collide, however many there are.
\<close>

theorem signup_blank_email:
  assumes "get_or payload ''username'' [] = Str u" and "un = strip u" and "un \<noteq> []"
    and "get_or payload ''password'' [] = Str pw" and "pw \<noteq> []"
    and "get_or payload ''full_name'' [] = Str f" and "fn = strip f" and "fn \<noteq> []"
    and "get_or payload ''email'' [] = Str m" and "strip m = []"
    and "get_or payload ''role'' ''Viewer'' = Str rr"
    and "\<not> username_taken un db"
  shows "signup gph salt (Object payload) db =
     ((Signup_body ''Account created successfully. Please sign in.'' un fn, 201),
      db @ [\<lparr>username = un, password = gph salt pw, full_name = fn, email = None,
              role = py_or (Some (strip rr)) ''Viewer''\<rparr>])"
  using assms signup_strings [OF assms(1) assms(6) assms(9) assms(11), of gph salt db]
  by (simp add: get_user_by_username_None create_user_def sql_insert_def email_taken_def)

text \<open>
  The claim at a table that already holds two accounts without email: a third signup
  with a whitespace-only email succeeds and is stored without email.
\<close>

theorem signup_blank_email_witness:
  "signup demo_hash ''na''
     (Object [''username'' \<mapsto> JString ''carol'', ''password'' \<mapsto> JString ''pw'',
              ''full_name'' \<mapsto> JString ''Carol C'', ''email'' \<mapsto> JString ''   ''])
     [guest ''ann'', guest ''bob''] =
     ((Signup_body ''Account created successfully. Please sign in.'' ''carol'' ''Carol C'', 201),
      [guest ''ann'', guest ''bob'',
       \<lparr>username = ''carol'', password = demo_hash ''na'' ''pw'', full_name = ''Carol C'',
          email = None, role = ''Viewer''\<rparr>])"
proof -
  let ?P = "[''username'' \<mapsto> JString ''carol'', ''password'' \<mapsto> JString ''pw'',
      ''full_name'' \<mapsto> JString ''Carol C'', ''email'' \<mapsto> JString ''   '']"
  have h: "get_or ?P ''username'' [] = Str ''carol''" "''carol'' = strip ''carol''"
    "''carol'' \<noteq> []" "get_or ?P ''password'' [] = Str ''pw''" "''pw'' \<noteq> []"
    "get_or ?P ''full_name'' [] = Str ''Carol C''" "''Carol C'' = strip ''Carol C''"
    "''Carol C'' \<noteq> []" "get_or ?P ''email'' [] = Str ''   ''" "strip ''   '' = []"
    "get_or ?P ''role'' ''Viewer'' = Str ''Viewer''"
    "\<not> username_taken ''carol'' [guest ''ann'', guest ''bob'']"
    by (simp_all add: get_or_def strip_def py_isspace_def username_taken_def guest_def)
  have r: "py_or (Some (strip ''Viewer'')) ''Viewer'' = ''Viewer''"
    by (simp add: strip_def py_isspace_def py_or_def)
  have "signup demo_hash ''na'' (Object ?P) [guest ''ann'', guest ''bob''] =
     ((Signup_body ''Account created successfully. Please sign in.'' ''carol'' ''Carol C'', 201),
      [guest ''ann'', guest ''bob''] @
      [\<lparr>username = ''carol'', password = demo_hash ''na'' ''pw'', full_name = ''Carol C'',
          email = None, role = py_or (Some (strip ''Viewer'')) ''Viewer''\<rparr>])"
    by (rule signup_blank_email [OF h])
  then show ?thesis
    by (simp only: r append.simps)
qed


end
